theory Spec2Isabelle
  imports Main "HOL-Library.Sublist"
begin

section \<open>The factory-method mail example: a shallow embedding\<close>

text \<open>
  The source is \<^verbatim>\<open>src/design_patterns/factory_design_principle.ts\<close>: an interface
  \<^verbatim>\<open>MailTemplate\<close> with two classes, an abstract class \<^verbatim>\<open>Mailer\<close> with two
  subclasses, the function \<^verbatim>\<open>clientCode\<close> and three top-level statements.

  A TypeScript method may write to the console and may throw. Both are made explicit:
  a call takes the world before it and returns an outcome (\<open>Inl\<close> a thrown value,
  \<open>Inr\<close> the returned value) with the world after it. The world holds the text written
  to standard output so far; the record's extension stands for any other state a method
  could reach.
\<close>

subsection \<open>Effects\<close>

datatype error = Thrown string

record world =
  stdout :: string

type_synonym ('a, 'z) call = "'z world_scheme \<Rightarrow> (error + 'a) \<times> 'z world_scheme"

text \<open>\<^verbatim>\<open>return v\<close>: the value, the world untouched.\<close>

definition ret :: "'a \<Rightarrow> ('a, 'z) call" where
  "ret v w = (Inr v, w)"

text \<open>
  Sequencing of two statements: the second runs in the world the first left, and only
  when the first returned; a thrown value propagates uncaught.
\<close>

definition and_then :: "('a, 'z) call \<Rightarrow> ('a \<Rightarrow> ('b, 'z) call) \<Rightarrow> ('b, 'z) call" where
  "and_then f g w = (case f w of (Inl e, w') \<Rightarrow> (Inl e, w') | (Inr v, w') \<Rightarrow> g v w')"

definition newline :: string where
  "newline = [CHR 0x0A]"

text \<open>\<^verbatim>\<open>console.log(s)\<close> writes \<open>s\<close> and a line feed to standard output; it returns nothing.\<close>

definition console_log :: "string \<Rightarrow> (unit, 'z) call" where
  "console_log s w = (Inr (), w\<lparr>stdout := stdout w @ s @ newline\<rparr>)"

subsection \<open>Products\<close>

text \<open>
  \<^verbatim>\<open>interface MailTemplate { generate(): string; }\<close>
  The interface has no fields: an object of it is its one method.
\<close>

record 'z MailTemplate =
  generate :: "(string, 'z) call"

text \<open>
  \<^verbatim>\<open>class WelcomeMailTemplate implements MailTemplate {
    public generate(): string { return "Welcome aboard! Thanks for signing up!"; } }\<close>
\<close>

definition WelcomeMailTemplate :: "'z MailTemplate" where
  "WelcomeMailTemplate = \<lparr>generate = ret ''Welcome aboard! Thanks for signing up!''\<rparr>"

text \<open>
  \<^verbatim>\<open>class NewsLetterMailTemplate implements MailTemplate {
    public generate(): string { return "Please enjoy our newsletter!"; } }\<close>
\<close>

definition NewsLetterMailTemplate :: "'z MailTemplate" where
  "NewsLetterMailTemplate = \<lparr>generate = ret ''Please enjoy our newsletter!''\<rparr>"

subsection \<open>Creators\<close>

text \<open>
  \<^verbatim>\<open>abstract class Mailer {
    public abstract generateMailTemplate(): MailTemplate;
    public sendMail(): string { ... } }\<close>
  The class has no fields and two public methods, and TypeScript lets a subclass override
  either of them. An object of the class is its two methods, as the call
  \<^verbatim>\<open>mailer.sendMail()\<close> finds them: \<open>sendMail m\<close> is the method the object \<open>m\<close>
  answers with, which is the base class's only when the subclass has not replaced it.
\<close>

record 'z Mailer =
  generateMailTemplate :: "('z MailTemplate, 'z) call"
  sendMail :: "(string, 'z) call"

text \<open>
  The body that the base class gives to \<^verbatim>\<open>sendMail\<close>:
  \<^verbatim>\<open>public sendMail(): string {
    const mailTemplate = this.generateMailTemplate();
    return `Sending the following mail : ${mailTemplate.generate()}`; }\<close>
  Its parameter is \<^verbatim>\<open>this.generateMailTemplate\<close>, the one member of \<^verbatim>\<open>this\<close>
  that the body uses.
\<close>

definition Mailer_sendMail :: "('z MailTemplate, 'z) call \<Rightarrow> (string, 'z) call" where
  "Mailer_sendMail this_generateMailTemplate =
     and_then this_generateMailTemplate (\<lambda>mailTemplate.
     and_then (generate mailTemplate) (\<lambda>text.
     ret (''Sending the following mail : '' @ text)))"

text \<open>
  \<^verbatim>\<open>class C extends Mailer { public generateMailTemplate(): MailTemplate { ... } }\<close>
  An object of a subclass that supplies the abstract method and nothing else: its
  \<^verbatim>\<open>sendMail\<close> is the inherited body, with \<^verbatim>\<open>this\<close> bound to the object.
\<close>

definition extends_Mailer :: "('z MailTemplate, 'z) call \<Rightarrow> 'z Mailer" where
  "extends_Mailer g = \<lparr>generateMailTemplate = g, sendMail = Mailer_sendMail g\<rparr>"

text \<open>
  \<^verbatim>\<open>class WelcomeMailGenerator extends Mailer {
    public generateMailTemplate(): MailTemplate { return new WelcomeMailTemplate(); } }\<close>
\<close>

definition WelcomeMailGenerator :: "'z Mailer" where
  "WelcomeMailGenerator = extends_Mailer (ret WelcomeMailTemplate)"

text \<open>
  \<^verbatim>\<open>class NewsLetterMailGenerator extends Mailer {
    public generateMailTemplate(): MailTemplate { return new NewsLetterMailTemplate(); } }\<close>
\<close>

definition NewsLetterMailGenerator :: "'z Mailer" where
  "NewsLetterMailGenerator = extends_Mailer (ret NewsLetterMailTemplate)"

subsection \<open>Client and entry sequence\<close>

text \<open>\<^verbatim>\<open>function clientCode(mailer: Mailer) { console.log(mailer.sendMail()); }\<close>\<close>

definition clientCode :: "'z Mailer \<Rightarrow> (unit, 'z) call" where
  "clientCode mailer = and_then (sendMail mailer) console_log"

text \<open>
  The three top-level statements:
  \<^verbatim>\<open>clientCode(new WelcomeMailGenerator());
  console.log("---");
  clientCode(new NewsLetterMailGenerator());\<close>
\<close>

definition program :: "(unit, 'z) call" where
  "program =
     and_then (clientCode WelcomeMailGenerator) (\<lambda>_.
     and_then (console_log ''---'') (\<lambda>_.
     clientCode NewsLetterMailGenerator))"

text \<open>
  Not a function of the source, but the way a caller invokes methods repeatedly: the
  calls of a list made one after the other, each in the world the one before left, the
  returned values collected in order.
\<close>

fun calls :: "('a, 'z) call list \<Rightarrow> ('a list, 'z) call" where
  "calls [] = ret []"
| "calls (c # cs) = and_then c (\<lambda>v. and_then (calls cs) (\<lambda>vs. ret (v # vs)))"

section \<open>Shared facts\<close>

lemma generate_Welcome:
  "generate WelcomeMailTemplate w = (Inr ''Welcome aboard! Thanks for signing up!'', w)"
  by (simp add: WelcomeMailTemplate_def ret_def)

lemma generate_NewsLetter:
  "generate NewsLetterMailTemplate w = (Inr ''Please enjoy our newsletter!'', w)"
  by (simp add: NewsLetterMailTemplate_def ret_def)

lemma templates_differ: "(WelcomeMailTemplate :: 'z MailTemplate) \<noteq> NewsLetterMailTemplate"
proof
  assume "(WelcomeMailTemplate :: 'z MailTemplate) = NewsLetterMailTemplate"
  then have "generate (WelcomeMailTemplate :: 'z MailTemplate) w
      = generate NewsLetterMailTemplate w" for w
    by simp
  then show False
    by (simp add: generate_Welcome generate_NewsLetter)
qed

lemma generateMailTemplate_Welcome:
  "generateMailTemplate WelcomeMailGenerator w = (Inr WelcomeMailTemplate, w)"
  by (simp add: WelcomeMailGenerator_def extends_Mailer_def ret_def)

lemma generateMailTemplate_NewsLetter:
  "generateMailTemplate NewsLetterMailGenerator w = (Inr NewsLetterMailTemplate, w)"
  by (simp add: NewsLetterMailGenerator_def extends_Mailer_def ret_def)

text \<open>What the inherited \<open>sendMail\<close> returns and leaves, read off the two calls it makes.\<close>

lemma Mailer_sendMail_factors:
  "Mailer_sendMail g w =
     map_prod (map_sum id ((@) ''Sending the following mail : '')) id (and_then g generate w)"
  by (simp add: Mailer_sendMail_def and_then_def ret_def split: prod.splits sum.splits)

lemma sendMail_extends: "sendMail (extends_Mailer g) = Mailer_sendMail g"
  by (simp add: extends_Mailer_def)

lemma generateMailTemplate_extends: "generateMailTemplate (extends_Mailer g) = g"
  by (simp add: extends_Mailer_def)

lemma sendMail_Welcome:
  "sendMail WelcomeMailGenerator w =
     (Inr ''Sending the following mail : Welcome aboard! Thanks for signing up!'', w)"
  by (simp add: WelcomeMailGenerator_def sendMail_extends Mailer_sendMail_def and_then_def
      generate_Welcome ret_def)

lemma sendMail_NewsLetter:
  "sendMail NewsLetterMailGenerator w =
     (Inr ''Sending the following mail : Please enjoy our newsletter!'', w)"
  by (simp add: NewsLetterMailGenerator_def sendMail_extends Mailer_sendMail_def and_then_def
      generate_NewsLetter ret_def)

lemma clientCode_returned:
  "sendMail m w = (Inr s, w') \<Longrightarrow>
     clientCode m w = (Inr (), w'\<lparr>stdout := stdout w' @ s @ newline\<rparr>)"
  by (simp add: clientCode_def and_then_def console_log_def)

lemma clientCode_thrown:
  "sendMail m w = (Inl e, w') \<Longrightarrow> clientCode m w = (Inl e, w')"
  by (simp add: clientCode_def and_then_def)

lemma program_run:
  "program w =
     (Inr (), w\<lparr>stdout := stdout w
        @ ''Sending the following mail : Welcome aboard! Thanks for signing up!'' @ newline
        @ ''---'' @ newline
        @ ''Sending the following mail : Please enjoy our newsletter!'' @ newline\<rparr>)"
  by (simp add: program_def and_then_def console_log_def
      clientCode_returned [OF sendMail_Welcome] clientCode_returned [OF sendMail_NewsLetter])

section \<open>The claims\<close>

text \<open>
  C1. For each Creator variant, \<open>sendMail()\<close> returns the fixed prefix
  "Sending the following mail : " followed by the string that the \<open>generate()\<close> of the
  variant's bound product returns: for \<open>WelcomeMailGenerator\<close> the result is
  "Sending the following mail : Welcome aboard! Thanks for signing up!", for
  \<open>NewsLetterMailGenerator\<close> it is "Sending the following mail : Please enjoy our
  newsletter!". The last two conjuncts read the result off the product that the variant's
  own factory method hands out.
\<close>

theorem sendMail_variants:
  "sendMail WelcomeMailGenerator w =
     (Inr ''Sending the following mail : Welcome aboard! Thanks for signing up!'', w)
   \<and> sendMail NewsLetterMailGenerator w =
     (Inr ''Sending the following mail : Please enjoy our newsletter!'', w)
   \<and> sendMail WelcomeMailGenerator w =
       map_prod (map_sum id ((@) ''Sending the following mail : '')) id
         (and_then (generateMailTemplate WelcomeMailGenerator) generate w)
   \<and> sendMail NewsLetterMailGenerator w =
       map_prod (map_sum id ((@) ''Sending the following mail : '')) id
         (and_then (generateMailTemplate NewsLetterMailGenerator) generate w)"
proof -
  have "sendMail WelcomeMailGenerator w =
     (Inr ''Sending the following mail : Welcome aboard! Thanks for signing up!'', w)"
    by (rule sendMail_Welcome)
  moreover have "sendMail NewsLetterMailGenerator w =
     (Inr ''Sending the following mail : Please enjoy our newsletter!'', w)"
    by (rule sendMail_NewsLetter)
  moreover have "sendMail (extends_Mailer g) w =
       map_prod (map_sum id ((@) ''Sending the following mail : '')) id
         (and_then (generateMailTemplate (extends_Mailer g)) generate w)" for g
    by (simp add: sendMail_extends generateMailTemplate_extends Mailer_sendMail_factors)
  ultimately show ?thesis
    unfolding WelcomeMailGenerator_def NewsLetterMailGenerator_def
    by simp
qed

text \<open>
  C2. Running the entry sequence writes exactly three lines to standard output, in this
  order: the welcome line, the divider "---", the newsletter line; nothing else is
  written. The first conjunct is the run from any world; the second is the whole output
  of a run that starts with nothing written, as three lines each closed by a line feed;
  the third counts the line feeds in it.
\<close>

theorem program_output:
  "program w =
     (Inr (), w\<lparr>stdout := stdout w
        @ ''Sending the following mail : Welcome aboard! Thanks for signing up!'' @ newline
        @ ''---'' @ newline
        @ ''Sending the following mail : Please enjoy our newsletter!'' @ newline\<rparr>)
   \<and> stdout (snd (program \<lparr>stdout = []\<rparr>)) =
       concat (map (\<lambda>line. line @ newline)
         [''Sending the following mail : Welcome aboard! Thanks for signing up!'',
          ''---'',
          ''Sending the following mail : Please enjoy our newsletter!''])
   \<and> length (filter (\<lambda>c. c = CHR 0x0A) (stdout (snd (program \<lparr>stdout = []\<rparr>)))) = 3"
  by (simp add: program_run newline_def)

text \<open>
  C3. For every Mailer, not only the two of the source and also one that overrides
  \<open>sendMail\<close>, \<open>clientCode\<close> writes to standard output the result of that Mailer's
  \<open>sendMail()\<close> followed by a line feed, changes nothing else and returns no value
  (first conjunct: the world after is the world \<open>sendMail\<close> left, with that one line
  appended). When \<open>sendMail\<close> throws, the thrown value propagates and nothing is written
  (second conjunct). The routine does not look at the concrete variant: two Mailers whose
  \<open>sendMail\<close> behaves alike are treated alike (third conjunct).
\<close>

theorem clientCode_any_mailer:
  "(sendMail m w = (Inr s, w') \<longrightarrow>
      clientCode m w = (Inr (), w'\<lparr>stdout := stdout w' @ s @ newline\<rparr>))
   \<and> (sendMail m w = (Inl e, w') \<longrightarrow> clientCode m w = (Inl e, w'))
   \<and> (sendMail m w = sendMail m' w \<longrightarrow> clientCode m w = clientCode m' w)"
proof -
  have "sendMail m w = sendMail m' w \<longrightarrow> clientCode m w = clientCode m' w"
    by (simp add: clientCode_def and_then_def)
  then show ?thesis
    by (simp add: clientCode_returned clientCode_thrown)
qed

text \<open>
  The three cases at work, in a world with something already written. First a Mailer
  that overrides \<open>sendMail\<close>: it logs "sending" and returns "---". Then a Mailer whose
  factory method throws. Last two Mailers that differ, \<open>WelcomeMailGenerator\<close> and one
  that produces the newsletter template but overrides \<open>sendMail\<close> to return the welcome
  line: the client treats them alike.
\<close>

theorem clientCode_any_mailer_witness:
  "sendMail
       \<lparr>generateMailTemplate = ret WelcomeMailTemplate,
        sendMail = and_then (console_log ''sending'') (\<lambda>_. ret ''---'')\<rparr>
       \<lparr>stdout = ''log: ''\<rparr>
     = (Inr ''---'', \<lparr>stdout = ''log: sending'' @ newline\<rparr>)
   \<and> clientCode
       \<lparr>generateMailTemplate = ret WelcomeMailTemplate,
        sendMail = and_then (console_log ''sending'') (\<lambda>_. ret ''---'')\<rparr>
       \<lparr>stdout = ''log: ''\<rparr>
     = (Inr (), \<lparr>stdout = ''log: sending'' @ newline @ ''---'' @ newline\<rparr>)
   \<and> sendMail (extends_Mailer (\<lambda>w. (Inl (Thrown ''no template''), w))) \<lparr>stdout = ''log: ''\<rparr>
     = (Inl (Thrown ''no template''), \<lparr>stdout = ''log: ''\<rparr>)
   \<and> clientCode (extends_Mailer (\<lambda>w. (Inl (Thrown ''no template''), w))) \<lparr>stdout = ''log: ''\<rparr>
     = (Inl (Thrown ''no template''), \<lparr>stdout = ''log: ''\<rparr>)
   \<and> (WelcomeMailGenerator :: unit Mailer)
     \<noteq> \<lparr>generateMailTemplate = ret NewsLetterMailTemplate,
        sendMail = ret ''Sending the following mail : Welcome aboard! Thanks for signing up!''\<rparr>
   \<and> sendMail WelcomeMailGenerator \<lparr>stdout = ''log: ''\<rparr>
     = sendMail
         \<lparr>generateMailTemplate = ret NewsLetterMailTemplate,
          sendMail = ret ''Sending the following mail : Welcome aboard! Thanks for signing up!''\<rparr>
         \<lparr>stdout = ''log: ''\<rparr>
   \<and> clientCode WelcomeMailGenerator \<lparr>stdout = ''log: ''\<rparr>
     = clientCode
         \<lparr>generateMailTemplate = ret NewsLetterMailTemplate,
          sendMail = ret ''Sending the following mail : Welcome aboard! Thanks for signing up!''\<rparr>
         \<lparr>stdout = ''log: ''\<rparr>"
proof -
  let ?w = "\<lparr>stdout = ''log: ''\<rparr>"
  let ?w' = "\<lparr>stdout = ''log: sending'' @ newline\<rparr>"
  let ?overriding =
    "\<lparr>generateMailTemplate = ret WelcomeMailTemplate,
      sendMail = and_then (console_log ''sending'') (\<lambda>_. ret ''---'')\<rparr> :: unit Mailer"
  let ?throwing = "extends_Mailer (\<lambda>w. (Inl (Thrown ''no template''), w)) :: unit Mailer"
  let ?other =
    "\<lparr>generateMailTemplate = ret NewsLetterMailTemplate,
      sendMail = ret ''Sending the following mail : Welcome aboard! Thanks for signing up!''\<rparr>
      :: unit Mailer"
  have a: "sendMail ?overriding ?w = (Inr ''---'', ?w')"
    by (simp add: and_then_def console_log_def ret_def)
  have b: "sendMail ?throwing ?w = (Inl (Thrown ''no template''), ?w)"
    by (simp add: sendMail_extends Mailer_sendMail_def and_then_def)
  have c: "sendMail WelcomeMailGenerator ?w = sendMail ?other ?w"
    by (simp add: sendMail_Welcome ret_def)
  have d: "(WelcomeMailGenerator :: unit Mailer) \<noteq> ?other"
  proof
    assume "(WelcomeMailGenerator :: unit Mailer) = ?other"
    then have "generateMailTemplate (WelcomeMailGenerator :: unit Mailer) ?w
        = generateMailTemplate ?other ?w"
      by simp
    then have "(WelcomeMailTemplate :: unit MailTemplate) = NewsLetterMailTemplate"
      by (simp add: generateMailTemplate_Welcome ret_def)
    then show False
      using templates_differ by blast
  qed
  show ?thesis
    using a b c d
      clientCode_any_mailer [of ?overriding ?w "''---''" ?w' "Thrown ''no template''"
        ?overriding]
      clientCode_any_mailer [of ?throwing ?w "[]" ?w "Thrown ''no template''" ?throwing]
      clientCode_any_mailer [of WelcomeMailGenerator ?w "[]" ?w "Thrown ''no template''"
        ?other]
    by simp
qed

text \<open>
  C4. For each Product variant, \<open>generate()\<close> takes no input and returns the same fixed
  literal on every call, however often and in whatever order it is called:
  \<open>WelcomeMailTemplate.generate()\<close> is "Welcome aboard! Thanks for signing up!" and
  \<open>NewsLetterMailTemplate.generate()\<close> is "Please enjoy our newsletter!". The first two
  conjuncts hold in every world, that is, after any history of earlier calls; the third
  runs any sequence of calls on the two variants (\<open>True\<close> for the welcome template,
  \<open>False\<close> for the newsletter one) and reads every result.
\<close>

theorem generate_fixed_literal:
  "generate WelcomeMailTemplate w = (Inr ''Welcome aboard! Thanks for signing up!'', w)
   \<and> generate NewsLetterMailTemplate w = (Inr ''Please enjoy our newsletter!'', w)
   \<and> calls (map (\<lambda>b. generate (if b then WelcomeMailTemplate else NewsLetterMailTemplate)) bs) w
       = (Inr (map (\<lambda>b. if b then ''Welcome aboard! Thanks for signing up!''
                         else ''Please enjoy our newsletter!'') bs), w)"
proof -
  have seq: "calls (map (\<lambda>b. generate (if b then WelcomeMailTemplate else NewsLetterMailTemplate)) bs) w
       = (Inr (map (\<lambda>b. if b then ''Welcome aboard! Thanks for signing up!''
                         else ''Please enjoy our newsletter!'') bs), w)"
  proof (induction bs)
    case Nil
    show ?case by (simp add: ret_def)
  next
    case (Cons b bs)
    show ?case
    proof (cases b)
      case True
      then show ?thesis
        using Cons.IH by (simp add: and_then_def generate_Welcome ret_def)
    next
      case False
      then show ?thesis
        using Cons.IH by (simp add: and_then_def generate_NewsLetter ret_def)
    qed
  qed
  show ?thesis
    using seq generate_Welcome generate_NewsLetter by blast
qed

text \<open>
  C5 as stated fails: the claim speaks of any two Mailers, and a subclass may override
  \<open>sendMail\<close>. A Mailer with the welcome product whose own \<open>sendMail\<close> returns "---"
  agrees with \<open>WelcomeMailGenerator\<close> on \<open>generateMailTemplate().generate()\<close> and
  differs from it on \<open>sendMail()\<close>.
\<close>

theorem sendMail_overridden_not_determined:
  "and_then (generateMailTemplate WelcomeMailGenerator) generate \<lparr>stdout = ''''\<rparr>
     = and_then
         (generateMailTemplate
           \<lparr>generateMailTemplate = ret WelcomeMailTemplate, sendMail = ret ''---''\<rparr>)
         generate \<lparr>stdout = ''''\<rparr>
   \<and> sendMail WelcomeMailGenerator \<lparr>stdout = ''''\<rparr>
     = (Inr ''Sending the following mail : Welcome aboard! Thanks for signing up!'',
        \<lparr>stdout = ''''\<rparr>)
   \<and> sendMail \<lparr>generateMailTemplate = ret WelcomeMailTemplate, sendMail = ret ''---''\<rparr>
       \<lparr>stdout = ''''\<rparr>
     = (Inr ''---'', \<lparr>stdout = ''''\<rparr>)
   \<and> sendMail WelcomeMailGenerator \<lparr>stdout = ''''\<rparr>
     \<noteq> sendMail \<lparr>generateMailTemplate = ret WelcomeMailTemplate, sendMail = ret ''---''\<rparr>
         \<lparr>stdout = ''''\<rparr>"
proof -
  have same: "and_then (generateMailTemplate WelcomeMailGenerator) generate \<lparr>stdout = []\<rparr>
     = and_then
         (generateMailTemplate
           \<lparr>generateMailTemplate = ret WelcomeMailTemplate, sendMail = ret ''---''\<rparr>)
         generate \<lparr>stdout = []\<rparr>"
    by (simp add: and_then_def generateMailTemplate_Welcome ret_def)
  show ?thesis
    using same by (simp add: sendMail_Welcome ret_def)
qed

text \<open>
  C5, amended. For the Mailers that inherit \<open>sendMail\<close> from the base class, as both
  variants of the source do, what \<open>sendMail()\<close> does is determined by the product
  that \<open>generateMailTemplate()\<close> hands out: if \<open>generateMailTemplate().generate()\<close>
  gives the same string for two such Mailers, so does \<open>sendMail()\<close> (first conjunct, on
  the returned values; second conjunct, on the values together with the worlds left);
  and \<open>sendMail\<close> is the fixed prefix put in front of what \<open>generate\<close> returns on the
  produced product (third conjunct).
\<close>

theorem sendMail_inherited_determined_by_product:
  "(fst (and_then (generateMailTemplate (extends_Mailer g1)) generate w1)
      = fst (and_then (generateMailTemplate (extends_Mailer g2)) generate w2)
    \<longrightarrow> fst (sendMail (extends_Mailer g1) w1) = fst (sendMail (extends_Mailer g2) w2))
   \<and> (and_then (generateMailTemplate (extends_Mailer g1)) generate w1
      = and_then (generateMailTemplate (extends_Mailer g2)) generate w2
    \<longrightarrow> sendMail (extends_Mailer g1) w1 = sendMail (extends_Mailer g2) w2)
   \<and> sendMail (extends_Mailer g) w =
       and_then (and_then (generateMailTemplate (extends_Mailer g)) generate)
         (\<lambda>text. ret (''Sending the following mail : '' @ text)) w"
proof -
  have factored: "sendMail (extends_Mailer g) w =
       and_then (and_then (generateMailTemplate (extends_Mailer g)) generate)
         (\<lambda>text. ret (''Sending the following mail : '' @ text)) w"
    for g :: "('z MailTemplate, 'z) call" and w :: "'z world_scheme"
    by (simp add: extends_Mailer_def Mailer_sendMail_def and_then_def
        split: prod.splits sum.splits)
  have returned: "fst (sendMail (extends_Mailer g) w) =
       map_sum id ((@) ''Sending the following mail : '')
         (fst (and_then (generateMailTemplate (extends_Mailer g)) generate w))"
    for g :: "('z MailTemplate, 'z) call" and w :: "'z world_scheme"
    by (simp add: extends_Mailer_def Mailer_sendMail_factors)
  show ?thesis
    using factored [of g w] factored [of g1 w1] factored [of g2 w2]
      returned [of g1 w1] returned [of g2 w2]
    by (simp add: and_then_def)
qed

text \<open>
  Two Mailers that differ: \<open>WelcomeMailGenerator\<close>, and one whose template greets with
  the welcome text when nothing has been written yet and with "Welcome back!" otherwise.
  In the empty world their product texts agree, and so do their mails.
\<close>

theorem sendMail_inherited_determined_by_product_witness:
  "(extends_Mailer (ret WelcomeMailTemplate) :: unit Mailer)
     \<noteq> extends_Mailer (ret \<lparr>generate = (\<lambda>w. (Inr (if stdout w = []
           then ''Welcome aboard! Thanks for signing up!'' else ''Welcome back!''), w))\<rparr>)
   \<and> and_then (generateMailTemplate (extends_Mailer (ret WelcomeMailTemplate))) generate
       \<lparr>stdout = ''''\<rparr>
     = and_then (generateMailTemplate
         (extends_Mailer (ret \<lparr>generate = (\<lambda>w. (Inr (if stdout w = []
           then ''Welcome aboard! Thanks for signing up!'' else ''Welcome back!''), w))\<rparr>)))
         generate \<lparr>stdout = ''''\<rparr>
   \<and> sendMail (extends_Mailer (ret WelcomeMailTemplate)) \<lparr>stdout = ''''\<rparr>
     = sendMail
         (extends_Mailer (ret \<lparr>generate = (\<lambda>w. (Inr (if stdout w = []
           then ''Welcome aboard! Thanks for signing up!'' else ''Welcome back!''), w))\<rparr>))
         \<lparr>stdout = ''''\<rparr>
   \<and> fst (sendMail (extends_Mailer (ret WelcomeMailTemplate)) \<lparr>stdout = ''''\<rparr>)
     = fst (sendMail
         (extends_Mailer (ret \<lparr>generate = (\<lambda>w. (Inr (if stdout w = []
           then ''Welcome aboard! Thanks for signing up!'' else ''Welcome back!''), w))\<rparr>))
         \<lparr>stdout = ''''\<rparr>)"
proof -
  let ?w = "\<lparr>stdout = ''''\<rparr>"
  let ?greeting = "\<lparr>generate = (\<lambda>w. (Inr (if stdout w = []
           then ''Welcome aboard! Thanks for signing up!'' else ''Welcome back!''), w))\<rparr>
      :: unit MailTemplate"
  let ?g1 = "ret WelcomeMailTemplate :: (unit MailTemplate, unit) call"
  let ?g2 = "ret ?greeting :: (unit MailTemplate, unit) call"
  have same: "and_then (generateMailTemplate (extends_Mailer ?g1)) generate ?w
     = and_then (generateMailTemplate (extends_Mailer ?g2)) generate ?w"
    by (simp add: extends_Mailer_def and_then_def ret_def WelcomeMailTemplate_def)
  have differ: "extends_Mailer ?g1 \<noteq> extends_Mailer ?g2"
  proof
    assume "extends_Mailer ?g1 = extends_Mailer ?g2"
    then have "generateMailTemplate (extends_Mailer ?g1) ?w
        = generateMailTemplate (extends_Mailer ?g2) ?w"
      by simp
    then have "WelcomeMailTemplate = ?greeting"
      by (simp add: extends_Mailer_def ret_def)
    then have "generate WelcomeMailTemplate \<lparr>stdout = ''x''\<rparr>
        = generate ?greeting \<lparr>stdout = ''x''\<rparr>"
      by simp
    then show False
      by (simp add: generate_Welcome)
  qed
  show ?thesis
    using same differ
      sendMail_inherited_determined_by_product [of ?g1 ?w ?g2 ?w ?g2 ?w]
    by simp
qed

text \<open>
  C6 as stated fails: the claim speaks of every Mailer, and nothing keeps a subclass's
  factory method or a product's \<open>generate\<close> from writing to the console. A Mailer that
  inherits \<open>sendMail\<close>, whose factory method logs "A" and whose product logs "B", leaves
  both lines on standard output when \<open>sendMail()\<close> is called.
\<close>

theorem sendMail_effectful_mailer:
  "sendMail
       (extends_Mailer (and_then (console_log ''A'') (\<lambda>_.
          ret \<lparr>generate = and_then (console_log ''B'') (\<lambda>_. ret ''hi'')\<rparr>)))
       \<lparr>stdout = ''''\<rparr>
     = (Inr ''Sending the following mail : hi'', \<lparr>stdout = ''A'' @ newline @ ''B'' @ newline\<rparr>)
   \<and> snd (sendMail
       (extends_Mailer (and_then (console_log ''A'') (\<lambda>_.
          ret \<lparr>generate = and_then (console_log ''B'') (\<lambda>_. ret ''hi'')\<rparr>)))
       \<lparr>stdout = ''''\<rparr>)
     \<noteq> \<lparr>stdout = ''''\<rparr>"
  by (simp add: sendMail_extends Mailer_sendMail_def and_then_def console_log_def ret_def
      newline_def)

text \<open>
  C6, amended. The \<open>sendMail()\<close> of the base class calls \<open>generateMailTemplate()\<close> and
  then \<open>generate()\<close> on its result, and has no side effect of its own: for every Mailer
  that inherits it, the world it leaves is the world those two calls leave (first
  conjunct). \<open>generate()\<close> on either Product variant of the source leaves the world as it
  was (second and third), and so does \<open>sendMail()\<close> on either Creator variant of the
  source (fourth and fifth): there it only yields the returned string.
\<close>

theorem sendMail_inherited_no_own_effect:
  "snd (sendMail (extends_Mailer g) w)
     = snd (and_then (generateMailTemplate (extends_Mailer g)) generate w)
   \<and> snd (generate WelcomeMailTemplate w) = w
   \<and> snd (generate NewsLetterMailTemplate w) = w
   \<and> snd (sendMail WelcomeMailGenerator w) = w
   \<and> snd (sendMail NewsLetterMailGenerator w) = w"
  by (simp add: sendMail_extends generateMailTemplate_extends Mailer_sendMail_factors
      generate_Welcome generate_NewsLetter sendMail_Welcome sendMail_NewsLetter)

text \<open>
  C7. No operation of the program fails: \<open>generate()\<close> on each Product variant, the
  factory method and \<open>sendMail()\<close> on each Creator variant, \<open>clientCode\<close> on each of them
  and the entry sequence return normally (an \<open>Inr\<close> outcome, never a thrown value) from
  every world. Every function of the model is a total, non-recursive definition, so each
  call ends. The last conjunct says that \<open>clientCode\<close> adds no failure of its own for any
  Mailer: its outcome is that of \<open>sendMail\<close>.
\<close>

theorem no_operation_fails:
  "(\<exists>text. fst (generate WelcomeMailTemplate w) = Inr text)
   \<and> (\<exists>text. fst (generate NewsLetterMailTemplate w) = Inr text)
   \<and> (\<exists>t. fst (generateMailTemplate WelcomeMailGenerator w) = Inr t)
   \<and> (\<exists>t. fst (generateMailTemplate NewsLetterMailGenerator w) = Inr t)
   \<and> (\<exists>s. fst (sendMail WelcomeMailGenerator w) = Inr s)
   \<and> (\<exists>s. fst (sendMail NewsLetterMailGenerator w) = Inr s)
   \<and> fst (clientCode WelcomeMailGenerator w) = Inr ()
   \<and> fst (clientCode NewsLetterMailGenerator w) = Inr ()
   \<and> fst (program w) = Inr ()
   \<and> fst (clientCode m w) = map_sum id (\<lambda>s. ()) (fst (sendMail m w))"
proof -
  have client: "fst (clientCode m w) = map_sum id (\<lambda>s. ()) (fst (sendMail m w))"
    by (simp add: clientCode_def and_then_def console_log_def split: prod.splits sum.splits)
  show ?thesis
    using client
    by (simp add: generate_Welcome generate_NewsLetter generateMailTemplate_Welcome
        generateMailTemplate_NewsLetter sendMail_Welcome sendMail_NewsLetter program_run
        clientCode_returned [OF sendMail_Welcome] clientCode_returned [OF sendMail_NewsLetter])
qed

text \<open>
  C8. The factory method of each concrete Creator takes no parameter, has no branch and
  always returns one fixed Product variant: \<open>WelcomeMailGenerator\<close> produces a
  \<open>WelcomeMailTemplate\<close> and \<open>NewsLetterMailGenerator\<close> a \<open>NewsLetterMailTemplate\<close>, in
  every world and on each of any number of invocations in a row; the two products are
  different.
\<close>

theorem factory_fixed_product:
  "generateMailTemplate WelcomeMailGenerator (w :: 'z world_scheme)
       = (Inr WelcomeMailTemplate, w)
   \<and> generateMailTemplate NewsLetterMailGenerator w = (Inr NewsLetterMailTemplate, w)
   \<and> calls (replicate n (generateMailTemplate WelcomeMailGenerator)) w
       = (Inr (replicate n WelcomeMailTemplate), w)
   \<and> calls (replicate n (generateMailTemplate NewsLetterMailGenerator)) w
       = (Inr (replicate n NewsLetterMailTemplate), w)
   \<and> (WelcomeMailTemplate :: 'z MailTemplate) \<noteq> NewsLetterMailTemplate"
proof -
  have again: "calls (replicate n (ret t)) w = (Inr (replicate n t), w)"
    for t :: "'z MailTemplate"
    by (induction n) (simp_all add: and_then_def ret_def)
  have differ: "(WelcomeMailTemplate :: 'z MailTemplate) \<noteq> NewsLetterMailTemplate"
  proof
    assume "(WelcomeMailTemplate :: 'z MailTemplate) = NewsLetterMailTemplate"
    then have "generate (WelcomeMailTemplate :: 'z MailTemplate) w
        = generate NewsLetterMailTemplate w"
      by simp
    then show False
      by (simp add: generate_Welcome generate_NewsLetter)
  qed
  show ?thesis
    using again [of WelcomeMailTemplate] again [of NewsLetterMailTemplate] differ
    by (simp add: WelcomeMailGenerator_def NewsLetterMailGenerator_def extends_Mailer_def
        ret_def)
qed

text \<open>
  C9. The two Creator variants can be told apart: \<open>sendMail()\<close> of
  \<open>WelcomeMailGenerator\<close> and of \<open>NewsLetterMailGenerator\<close> return different strings,
  whatever the worlds they are called in, so the first and the third line that the entry
  sequence writes are never equal.
\<close>

theorem variants_distinct:
  "fst (sendMail WelcomeMailGenerator w) \<noteq> fst (sendMail NewsLetterMailGenerator w')
   \<and> (\<exists>first third.
        fst (sendMail WelcomeMailGenerator w) = Inr first
        \<and> fst (sendMail NewsLetterMailGenerator w) = Inr third
        \<and> stdout (snd (program w))
            = stdout w @ first @ newline @ ''---'' @ newline @ third @ newline
        \<and> first \<noteq> third)"
  by (simp add: sendMail_Welcome sendMail_NewsLetter program_run)

text \<open>
  C10 as stated fails: the claim speaks of every Mailer, and a subclass may override
  \<open>sendMail\<close>. A Mailer whose own \<open>sendMail\<close> returns "---" makes the client write a
  line equal to the divider.
\<close>

theorem sendMail_overridden_divider:
  "sendMail \<lparr>generateMailTemplate = ret NewsLetterMailTemplate, sendMail = ret ''---''\<rparr>
       \<lparr>stdout = ''''\<rparr>
     = (Inr ''---'', \<lparr>stdout = ''''\<rparr>)
   \<and> \<not> prefix ''Sending the following mail : '' ''---''
   \<and> clientCode \<lparr>generateMailTemplate = ret NewsLetterMailTemplate, sendMail = ret ''---''\<rparr>
       \<lparr>stdout = ''''\<rparr>
     = (Inr (), \<lparr>stdout = ''---'' @ newline\<rparr>)"
  by (simp add: clientCode_def and_then_def console_log_def ret_def)

text \<open>
  C10, amended. For every Mailer that inherits \<open>sendMail\<close> from the base class, a string
  that \<open>sendMail()\<close> returns begins with "Sending the following mail : ", so it is not
  empty and is never the divider "---" (first conjunct). In the output of the entry
  sequence the first and the third line are such mail lines: each begins with the prefix,
  is a single line and differs from the divider line between them (second conjunct).
\<close>

theorem sendMail_inherited_prefix:
  "(sendMail (extends_Mailer g) w = (Inr s, w') \<longrightarrow>
      prefix ''Sending the following mail : '' s \<and> s \<noteq> [] \<and> s \<noteq> ''---'')
   \<and> (\<exists>first third.
        fst (sendMail WelcomeMailGenerator w) = Inr first
        \<and> fst (sendMail NewsLetterMailGenerator w) = Inr third
        \<and> stdout (snd (program w))
            = stdout w @ first @ newline @ ''---'' @ newline @ third @ newline
        \<and> prefix ''Sending the following mail : '' first
        \<and> prefix ''Sending the following mail : '' third
        \<and> first \<noteq> ''---'' \<and> third \<noteq> ''---''
        \<and> CHR 0x0A \<notin> set first \<and> CHR 0x0A \<notin> set third)"
proof -
  have mail: "prefix ''Sending the following mail : '' s \<and> s \<noteq> [] \<and> s \<noteq> ''---''"
    if "sendMail (extends_Mailer g) w = (Inr s, w')"
  proof -
    from that obtain body where "s = ''Sending the following mail : '' @ body"
      by (auto simp add: sendMail_extends Mailer_sendMail_def and_then_def ret_def
          split: prod.splits sum.splits)
    then show ?thesis
      by simp
  qed
  have lines: "\<exists>first third.
        fst (sendMail WelcomeMailGenerator w) = Inr first
        \<and> fst (sendMail NewsLetterMailGenerator w) = Inr third
        \<and> stdout (snd (program w))
            = stdout w @ first @ newline @ ''---'' @ newline @ third @ newline
        \<and> prefix ''Sending the following mail : '' first
        \<and> prefix ''Sending the following mail : '' third
        \<and> first \<noteq> ''---'' \<and> third \<noteq> ''---''
        \<and> CHR 0x0A \<notin> set first \<and> CHR 0x0A \<notin> set third"
    by (simp add: sendMail_Welcome sendMail_NewsLetter program_run)
  show ?thesis
    using mail lines by blast
qed

text \<open>The shortest mail there is: an inheriting Mailer whose product returns the empty string.\<close>

theorem sendMail_inherited_prefix_witness:
  "sendMail (extends_Mailer (ret \<lparr>generate = ret ''''\<rparr>)) \<lparr>stdout = ''''\<rparr>
     = (Inr ''Sending the following mail : '', \<lparr>stdout = ''''\<rparr>)
   \<and> prefix ''Sending the following mail : '' ''Sending the following mail : ''
   \<and> ''Sending the following mail : '' \<noteq> ''---''"
proof -
  let ?empty = "extends_Mailer (ret \<lparr>generate = ret ''''\<rparr>) :: unit Mailer"
  have run: "sendMail ?empty \<lparr>stdout = ''''\<rparr>
     = (Inr ''Sending the following mail : '', \<lparr>stdout = ''''\<rparr>)"
    by (simp add: sendMail_extends Mailer_sendMail_def and_then_def ret_def)
  show ?thesis
    using run
      sendMail_inherited_prefix [of "ret \<lparr>generate = ret ''''\<rparr>" "\<lparr>stdout = ''''\<rparr>"
        "''Sending the following mail : ''" "\<lparr>stdout = ''''\<rparr>"]
    by simp
qed

end
